theory Spec2Isabelle
  imports Main "HOL-Library.AList" "HOL-Library.Multiset"
begin

section \<open>Data model of \<open>pkg/controller/jobs/generic/config.go\<close>\<close>

text \<open>
  \<open>schema.GroupVersionKind\<close> of \<open>k8s.io/apimachinery\<close>: three string fields.
\<close>

record GroupVersionKind =
  Group :: string
  Version :: string
  Kind :: string

text \<open>
  \<open>configapi.MultiKueueExternalFramework\<close> is declared in \<open>apis/config/v1beta1\<close>; the
  code here reads its \<open>Name\<close> field only. The functions below take the extensible record
  type, so an entry may carry any further fields: they are stored and never inspected.
\<close>

record MultiKueueExternalFramework =
  Name :: string

type_synonym 'a framework = "'a MultiKueueExternalFramework_scheme"

text \<open>
  \<open>genericAdapter\<close>: the code builds it with the \<open>gvk\<close> field alone.
\<close>

record genericAdapter =
  gvk :: GroupVersionKind

text \<open>
  The error values of the file, one constructor for each \<open>fmt.Errorf\<close>:
  \<^item> \<open>NameRequired\<close>: "name is required" (line 103);
  \<^item> \<open>InvalidGVKFormat n\<close>: "invalid GVK format 'n'" (line 109);
  \<^item> \<open>ConfigError n e\<close>: "config n: e", wrapping \<open>e\<close> (line 48);
  \<^item> \<open>InvalidGVKInConfiguration n\<close>: "invalid GVK format in configuration: n" (line 55);
  \<^item> \<open>ConfigurationErrors k\<close>: "encountered k configuration errors (see logs for details)"
    (line 66).
  A \<open>nil\<close> error is \<open>None\<close>.
\<close>

datatype error =
    NameRequired
  | InvalidGVKFormat string
  | ConfigError string error
  | InvalidGVKInConfiguration string
  | ConfigurationErrors nat

text \<open>
  \<open>ConfigManager\<close>: the Go map \<open>configs\<close> is an association list with one pair for each
  key; \<open>cm.configs[k] = v\<close> is \<open>AList.update k v\<close>, a lookup is \<open>map_of\<close>. A Go map has no
  iteration order; the list keeps the keys in the order of their first insertion, and the
  statements about \<open>GetAllAdapters\<close> below are on the multiset of its result.
\<close>

record 'c ConfigManager =
  configs :: "(string \<times> 'c) list"

type_synonym parser = "string \<Rightarrow> GroupVersionKind option"

section \<open>The functions of \<open>k8s.io/apimachinery/pkg/runtime/schema\<close> that the code calls\<close>

text \<open>
  The registry calls \<open>schema.ParseKindArg\<close> and \<open>GroupVersionKind.String\<close> of the
  apimachinery library. The operations of the registry below take both as parameters
  (\<open>parse\<close>, the first result of \<open>ParseKindArg\<close>, and \<open>str\<close>), so that what is proved of the
  registry holds for every parser. The library's own definitions are
  \<^verbatim>\<open>
  func ParseKindArg(arg string) (*GroupVersionKind, GroupKind) {
      var gvk *GroupVersionKind
      if strings.Count(arg, ".") >= 2 {
          s := strings.SplitN(arg, ".", 3)
          gvk = &GroupVersionKind{Group: s[2], Version: s[1], Kind: s[0]}
      }
      return gvk, ParseGroupKind(arg)
  }
  func (gvk GroupVersionKind) String() string {
      return gvk.Group + "/" + gvk.Version + ", Kind=" + gvk.Kind
  }
  \<close>
  and are embedded next. The registry discards the second result of \<open>ParseKindArg\<close>.
  A Go string is a sequence of bytes, as \<open>string\<close> is here.
\<close>

definition Count :: "string \<Rightarrow> char \<Rightarrow> nat" where
  "Count s sep = count_list s sep"

text \<open>
  \<open>strings.SplitN s sep n\<close> for a separator of one byte and \<open>n \<ge> 0\<close>: at most \<open>n\<close>
  pieces, the last one the unsplit rest.
\<close>

fun SplitN :: "string \<Rightarrow> char \<Rightarrow> nat \<Rightarrow> string list" where
  "SplitN s sep 0 = []"
| "SplitN s sep (Suc 0) = [s]"
| "SplitN s sep (Suc (Suc n)) =
     (if sep \<in> set s
      then takeWhile (\<lambda>c. c \<noteq> sep) s # SplitN (tl (dropWhile (\<lambda>c. c \<noteq> sep) s)) sep (Suc n)
      else [s])"

definition ParseKindArg :: parser where
  "ParseKindArg arg =
     (if 2 \<le> Count arg CHR ''.''
      then (let s = SplitN arg CHR ''.'' 3
            in Some \<lparr>Group = s ! 2, Version = s ! 1, Kind = s ! 0\<rparr>)
      else None)"

definition GroupVersionKind_String :: "GroupVersionKind \<Rightarrow> string" where
  "GroupVersionKind_String g = Group g @ ''/'' @ Version g @ '', Kind='' @ Kind g"

section \<open>The registry\<close>

definition NewConfigManager :: "'c ConfigManager" where
  "NewConfigManager = \<lparr>configs = []\<rparr>"

text \<open>
  \<open>validateConfig\<close> (lines 101 to 113); its receiver is not used. \<open>None\<close> is the \<open>nil\<close>
  error.
\<close>

definition validateConfig :: "parser \<Rightarrow> 'a framework \<Rightarrow> error option" where
  "validateConfig parse config =
     (if Name config = [] then Some NameRequired
      else (case parse (Name config) of
              None \<Rightarrow> Some (InvalidGVKFormat (Name config))
            | Some g \<Rightarrow> None))"

text \<open>
  The body of the loop of \<open>LoadConfigurations\<close> (lines 46 to 62) on the pair of the
  manager and the slice \<open>errors\<close>; each \<open>continue\<close> is a branch that leaves the map as it
  is. The calls of \<open>klog\<close> write to the log and have no part in the result.
\<close>

definition LoadConfigurations_body ::
  "parser \<Rightarrow> (GroupVersionKind \<Rightarrow> string) \<Rightarrow> 'a framework \<Rightarrow>
   'a framework ConfigManager \<times> error list \<Rightarrow> 'a framework ConfigManager \<times> error list" where
  "LoadConfigurations_body parse str config st =
     (case validateConfig parse config of
        Some err \<Rightarrow> (fst st, snd st @ [ConfigError (Name config) err])
      | None \<Rightarrow>
          (case parse (Name config) of
             None \<Rightarrow> (fst st, snd st @ [InvalidGVKInConfiguration (Name config)])
           | Some g \<Rightarrow>
               ((fst st)\<lparr>configs := AList.update (str g) config (configs (fst st))\<rparr>, snd st)))"

fun LoadConfigurations_loop ::
  "parser \<Rightarrow> (GroupVersionKind \<Rightarrow> string) \<Rightarrow> 'a framework list \<Rightarrow>
   'a framework ConfigManager \<times> error list \<Rightarrow> 'a framework ConfigManager \<times> error list" where
  "LoadConfigurations_loop parse str [] st = st"
| "LoadConfigurations_loop parse str (config # rest) st =
     LoadConfigurations_loop parse str rest (LoadConfigurations_body parse str config st)"

text \<open>
  \<open>LoadConfigurations\<close> (lines 41 to 69): the map is replaced by an empty one, the loop
  runs, and the result is the error (or \<open>nil\<close>) with the manager as the call leaves it.
\<close>

definition LoadConfigurations ::
  "parser \<Rightarrow> (GroupVersionKind \<Rightarrow> string) \<Rightarrow> 'a framework ConfigManager \<Rightarrow>
   'a framework list \<Rightarrow> error option \<times> 'a framework ConfigManager" where
  "LoadConfigurations parse str cm cfgs =
     (let st = LoadConfigurations_loop parse str cfgs (cm\<lparr>configs := []\<rparr>, [])
      in (if 0 < length (snd st) then Some (ConfigurationErrors (length (snd st))) else None,
          fst st))"

text \<open>
  \<open>GetAdapter\<close> (lines 72 to 81): \<open>None\<close> is the \<open>nil\<close> pointer. The manager is returned
  too, as the method leaves it.
\<close>

definition GetAdapter ::
  "(GroupVersionKind \<Rightarrow> string) \<Rightarrow> 'c ConfigManager \<Rightarrow> GroupVersionKind \<Rightarrow>
   genericAdapter option \<times> 'c ConfigManager" where
  "GetAdapter str cm g =
     (case map_of (configs cm) (str g) of
        None \<Rightarrow> (None, cm)
      | Some c \<Rightarrow> (Some \<lparr>gvk = g\<rparr>, cm))"

text \<open>
  \<open>GetAllAdapters\<close> (lines 84 to 98): the loop over the pairs of the map, appending to
  \<open>adapters\<close>.
\<close>

fun GetAllAdapters_loop ::
  "parser \<Rightarrow> (string \<times> 'a framework) list \<Rightarrow> genericAdapter list \<Rightarrow> genericAdapter list" where
  "GetAllAdapters_loop parse [] adapters = adapters"
| "GetAllAdapters_loop parse (kv # rest) adapters =
     (case parse (Name (snd kv)) of
        None \<Rightarrow> GetAllAdapters_loop parse rest adapters
      | Some g \<Rightarrow> GetAllAdapters_loop parse rest (adapters @ [\<lparr>gvk = g\<rparr>]))"

definition GetAllAdapters ::
  "parser \<Rightarrow> 'a framework ConfigManager \<Rightarrow> genericAdapter list \<times> 'a framework ConfigManager" where
  "GetAllAdapters parse cm = (GetAllAdapters_loop parse (configs cm) [], cm)"

section \<open>Notions used by the statements\<close>

text \<open>
  The key under which \<open>LoadConfigurations\<close> stores an entry: the string of the parsed
  name (\<open>gvk.String()\<close>, line 62), when the name parses.
\<close>

definition canonical :: "parser \<Rightarrow> (GroupVersionKind \<Rightarrow> string) \<Rightarrow> 'a framework \<Rightarrow> string option" where
  "canonical parse str config = map_option str (parse (Name config))"

text \<open>
  The error that \<open>LoadConfigurations\<close> appends for an entry that \<open>validateConfig\<close>
  rejects (line 48).
\<close>

definition rejection :: "parser \<Rightarrow> 'a framework \<Rightarrow> error option" where
  "rejection parse config = map_option (ConfigError (Name config)) (validateConfig parse config)"

section \<open>The loop of \<open>LoadConfigurations\<close>\<close>

lemma validateConfig_None_iff:
  "validateConfig parse c = None \<longleftrightarrow> Name c \<noteq> [] \<and> parse (Name c) \<noteq> None"
  by (auto simp: validateConfig_def split: option.splits)

lemma validateConfig_None_parse:
  "validateConfig parse c = None \<Longrightarrow> \<exists>g. parse (Name c) = Some g"
  by (auto simp: validateConfig_None_iff)

lemma body_accept:
  "validateConfig parse c = None \<Longrightarrow> parse (Name c) = Some g \<Longrightarrow>
   LoadConfigurations_body parse str c st =
     ((fst st)\<lparr>configs := AList.update (str g) c (configs (fst st))\<rparr>, snd st)"
  by (simp add: LoadConfigurations_body_def)

lemma body_reject:
  "validateConfig parse c = Some e \<Longrightarrow>
   LoadConfigurations_body parse str c st = (fst st, snd st @ [ConfigError (Name c) e])"
  by (simp add: LoadConfigurations_body_def)

lemma loop_append:
  "LoadConfigurations_loop parse str (xs @ ys) st =
   LoadConfigurations_loop parse str ys (LoadConfigurations_loop parse str xs st)"
  by (induction xs arbitrary: st) simp_all

lemma loop_errors:
  "snd (LoadConfigurations_loop parse str cs st) = snd st @ List.map_filter (rejection parse) cs"
proof (induction cs arbitrary: st)
  case Nil
  show ?case by simp
next
  case (Cons c cs)
  show ?case
  proof (cases "validateConfig parse c")
    case None
    then obtain g where "parse (Name c) = Some g"
      using validateConfig_None_parse by blast
    with None show ?thesis
      by (simp add: Cons.IH body_accept rejection_def)
  next
    case (Some e)
    then show ?thesis
      by (simp add: Cons.IH body_reject rejection_def)
  qed
qed

lemma length_map_filter_rejection:
  "length (List.map_filter (rejection parse) cs) = length (filter (\<lambda>c. validateConfig parse c \<noteq> None) cs)"
  by (induction cs) (auto simp: rejection_def split: option.splits)

lemma loop_skip_rejected:
  "fst st = fst st' \<Longrightarrow>
   fst (LoadConfigurations_loop parse str cs st) =
   fst (LoadConfigurations_loop parse str (filter (\<lambda>c. validateConfig parse c = None) cs) st')"
proof (induction cs arbitrary: st st')
  case Nil
  then show ?case by simp
next
  case (Cons c cs)
  show ?case
  proof (cases "validateConfig parse c")
    case None
    then obtain g where "parse (Name c) = Some g"
      using validateConfig_None_parse by blast
    with None Cons.prems show ?thesis
      by (simp add: body_accept Cons.IH)
  next
    case (Some e)
    with Cons.prems show ?thesis
      by (simp add: body_reject Cons.IH)
  qed
qed

lemma loop_keys:
  "fst ` set (configs (fst (LoadConfigurations_loop parse str cs st))) =
   fst ` set (configs (fst st)) \<union>
   {k. \<exists>c\<in>set cs. validateConfig parse c = None \<and> canonical parse str c = Some k}"
proof (induction cs arbitrary: st)
  case Nil
  then show ?case by simp
next
  case (Cons c cs)
  show ?case
  proof (cases "validateConfig parse c")
    case None
    then obtain g where g: "parse (Name c) = Some g"
      using validateConfig_None_parse by blast
    show ?thesis
      using None g by (auto simp: Cons.IH body_accept dom_update canonical_def)
  next
    case (Some e)
    then show ?thesis
      by (auto simp: Cons.IH body_reject)
  qed
qed

lemma loop_untouched:
  "\<forall>c\<in>set cs. validateConfig parse c = None \<longrightarrow> canonical parse str c \<noteq> Some k \<Longrightarrow>
   map_of (configs (fst (LoadConfigurations_loop parse str cs st))) k = map_of (configs (fst st)) k"
proof (induction cs arbitrary: st)
  case Nil
  then show ?case by simp
next
  case (Cons c cs)
  show ?case
  proof (cases "validateConfig parse c")
    case None
    then obtain g where g: "parse (Name c) = Some g"
      using validateConfig_None_parse by blast
    with None Cons.prems have "str g \<noteq> k"
      by (auto simp: canonical_def)
    with None g Cons.prems show ?thesis
      by (simp add: Cons.IH body_accept update_conv')
  next
    case (Some e)
    with Cons.prems show ?thesis
      by (simp add: Cons.IH body_reject)
  qed
qed

lemma loop_last_wins:
  assumes "validateConfig parse c = None" and "canonical parse str c = Some k"
    and "\<forall>d\<in>set ys. validateConfig parse d = None \<longrightarrow> canonical parse str d \<noteq> Some k"
  shows "map_of (configs (fst (LoadConfigurations_loop parse str (xs @ c # ys) st))) k = Some c"
proof -
  obtain g where g: "parse (Name c) = Some g" "str g = k"
    using assms(2) by (auto simp: canonical_def)
  show ?thesis
    using assms(1) g
    by (simp add: loop_append loop_untouched [OF assms(3)] body_accept update_conv')
qed

lemma loop_values:
  "(k, v) \<in> set (configs (fst (LoadConfigurations_loop parse str cs st))) \<Longrightarrow>
   (k, v) \<in> set (configs (fst st)) \<or>
   (v \<in> set cs \<and> validateConfig parse v = None \<and> canonical parse str v = Some k)"
proof (induction cs arbitrary: st)
  case Nil
  then show ?case by simp
next
  case (Cons c cs)
  show ?case
  proof (cases "validateConfig parse c")
    case None
    then obtain g where g: "parse (Name c) = Some g"
      using validateConfig_None_parse by blast
    have "set (AList.update (str g) c al) \<subseteq> insert (str g, c) (set al)" for al
      by (induction al) auto
    with Cons.IH [of "LoadConfigurations_body parse str c st"] Cons.prems None g
    show ?thesis
      by (auto simp: body_accept canonical_def)
  next
    case (Some e)
    with Cons.IH [of "LoadConfigurations_body parse str c st"] Cons.prems show ?thesis
      by (auto simp: body_reject)
  qed
qed

lemma loop_distinct:
  "distinct (map fst (configs (fst st))) \<Longrightarrow>
   distinct (map fst (configs (fst (LoadConfigurations_loop parse str cs st))))"
proof (induction cs arbitrary: st)
  case Nil
  then show ?case by simp
next
  case (Cons c cs)
  show ?case
  proof (cases "validateConfig parse c")
    case None
    then obtain g where g: "parse (Name c) = Some g"
      using validateConfig_None_parse by blast
    with None Cons.prems show ?thesis
      by (simp add: Cons.IH body_accept distinct_update)
  next
    case (Some e)
    with Cons.prems show ?thesis
      by (simp add: Cons.IH body_reject)
  qed
qed

section \<open>The empty batch\<close>

text \<open>
  C9. Loading the empty batch returns no error and leaves the map empty, whatever the
  manager held before; \<open>GetAllAdapters\<close> then returns the empty slice.
\<close>

theorem C9_load_empty_batch:
  "fst (LoadConfigurations parse str cm []) = None \<and>
   configs (snd (LoadConfigurations parse str cm [])) = [] \<and>
   fst (GetAllAdapters parse (snd (LoadConfigurations parse str cm []))) = []"
  by (simp add: LoadConfigurations_def GetAllAdapters_def)

end
